theory Spec2Isabelle
  imports Main "HOL-Library.Char_ord" "HOL-Library.List_Lexorder" "HOL-Library.Product_Lexorder"
begin

section \<open>Data model\<close>

text \<open>
  The rows of the relational store, as the schema declares them and as the services
  read them. Identifiers are SQL \<open>INT\<close>s. A time of day reaches the services as an
  \<open>HH:MM:SS\<close> string and is compared there with JavaScript's \<open><\<close> and \<open>>\<close> on strings,
  which is the lexicographic order on the characters (\<open>Char_ord\<close>, \<open>List_Lexorder\<close>).
  The store's own comparisons of \<open>TIME\<close> columns (in the \<open>WHERE\<close> clauses) are modelled by
  the same order on the strings; the two agree on zero-padded \<open>HH:MM:SS\<close> values.
  \<open>day_of_week\<close> is the \<open>ENUM\<close> of the seven weekday names.
\<close>

datatype weekday = Monday | Tuesday | Wednesday | Thursday | Friday | Saturday | Sunday

record timetable =
  timetable_id :: int
  course_id :: int
  day_of_week :: weekday
  start_time :: string
  end_time :: string

text \<open>A row of \<open>SELECT t.*, c.course_code FROM timetables t JOIN courses c ...\<close>.\<close>

record slot = timetable +
  course_code :: string

section \<open>Conflict checker (enrollmentService)\<close>

text \<open>\<open>timeSlotsOverlap(start1, end1, start2, end2)\<close>: \<open>start1 < end2 && end1 > start2\<close>.
  JavaScript applies it to whatever it is given; the model is polymorphic in the ordered
  type, and the services use it on strings.\<close>

definition timeSlotsOverlap :: "'a::linorder \<Rightarrow> 'a \<Rightarrow> 'a \<Rightarrow> 'a \<Rightarrow> bool" where
  "timeSlotsOverlap start1 end1 start2 end2 \<longleftrightarrow> start1 < end2 \<and> end1 > start2"

text \<open>What the clash message interpolates: the weekday, and for the incoming slot and
  the slot already placed, the label \<open>course_code || 'Course'\<close> and the interval.\<close>

datatype clash = TimetableClash weekday string string string string string string

definition label :: "slot \<Rightarrow> string" where
  "label s = (if course_code s = [] then ''Course'' else course_code s)"

definition clash_of :: "slot \<Rightarrow> slot \<Rightarrow> clash" where
  "clash_of s existing =
     TimetableClash (day_of_week s) (label s) (start_time s) (end_time s)
       (label existing) (start_time existing) (end_time existing)"

definition day_name :: "weekday \<Rightarrow> string" where
  "day_name d = (case d of Monday \<Rightarrow> ''Monday'' | Tuesday \<Rightarrow> ''Tuesday''
     | Wednesday \<Rightarrow> ''Wednesday'' | Thursday \<Rightarrow> ''Thursday'' | Friday \<Rightarrow> ''Friday''
     | Saturday \<Rightarrow> ''Saturday'' | Sunday \<Rightarrow> ''Sunday'')"

fun clash_message :: "clash \<Rightarrow> string" where
  "clash_message (TimetableClash d l1 s1 e1 l2 s2 e2) =
     ''Timetable clash detected on '' @ day_name d @ '': '' @ l1 @ '' ('' @ s1 @ ''-'' @ e1
       @ '') overlaps with '' @ l2 @ '' ('' @ s2 @ ''-'' @ e2 @ '')''"

text \<open>The inner loop \<open>for (const existing of timeSlotsByDay[day])\<close>: the first slot of
  the bucket that overlaps the incoming one, if any.\<close>

fun scan_bucket :: "slot \<Rightarrow> slot list \<Rightarrow> slot option" where
  "scan_bucket s [] = None"
| "scan_bucket s (existing # rest) =
     (if timeSlotsOverlap (start_time s) (end_time s) (start_time existing) (end_time existing)
      then Some existing
      else scan_bucket s rest)"

text \<open>\<open>timeSlotsByDay\<close> is an object keyed by the weekday; a key never assigned reads as
  \<open>undefined\<close> and is initialised to the empty array before it is scanned.\<close>

type_synonym buckets = "weekday \<rightharpoonup> slot list"

definition bucket :: "buckets \<Rightarrow> weekday \<Rightarrow> slot list" where
  "bucket m d = (case m d of None \<Rightarrow> [] | Some b \<Rightarrow> b)"

definition push_slot :: "slot \<Rightarrow> buckets \<Rightarrow> buckets" where
  "push_slot s m = m(day_of_week s \<mapsto> bucket m (day_of_week s) @ [s])"

text \<open>The outer loop \<open>for (const slot of timetables)\<close>, with the buckets as its state.
  \<open>Inl\<close> is the early \<open>return {success: false, error: ...}\<close>, \<open>Inr ()\<close> is
  \<open>{success: true}\<close>.\<close>

fun clash_loop :: "buckets \<Rightarrow> slot list \<Rightarrow> clash + unit" where
  "clash_loop m [] = Inr ()"
| "clash_loop m (s # rest) =
     (case scan_bucket s (bucket m (day_of_week s)) of
        Some existing \<Rightarrow> Inl (clash_of s existing)
      | None \<Rightarrow> clash_loop (push_slot s m) rest)"

definition checkTimetableClashes :: "slot list \<Rightarrow> clash + unit" where
  "checkTimetableClashes timetables = clash_loop Map.empty timetables"

text \<open>Two slots clash when they lie on the same weekday and their intervals overlap.\<close>

definition slots_clash :: "('a::type) timetable_scheme \<Rightarrow> ('b::type) timetable_scheme \<Rightarrow> bool" where
  "slots_clash a b \<longleftrightarrow>
     day_of_week a = day_of_week b \<and>
     timeSlotsOverlap (start_time a) (end_time a) (start_time b) (end_time b)"

text \<open>The state of the outer loop after the slots \<open>pre\<close>: every bucket holds the
  slots of its weekday, in the order of the input.\<close>

definition buckets_of :: "buckets \<Rightarrow> slot list \<Rightarrow> bool" where
  "buckets_of m pre \<longleftrightarrow> (\<forall>d. bucket m d = [x \<leftarrow> pre. day_of_week x = d])"

section \<open>Times of day as strings\<close>

text \<open>A time of day given by its hours, minutes and seconds; its zero-padded
  fixed-width rendering \<open>HH:MM:SS\<close>, the format in which times are exchanged; and the
  number of seconds it denotes.\<close>

type_synonym time_of_day = "nat \<times> nat \<times> nat"

definition two_digit_fields :: "time_of_day \<Rightarrow> bool" where
  "two_digit_fields t = (case t of (h, m, s) \<Rightarrow> h < 100 \<and> m < 60 \<and> s < 60)"

definition digit_char :: "nat \<Rightarrow> char" where
  "digit_char n = char_of (48 + n)"

definition pad2 :: "nat \<Rightarrow> string" where
  "pad2 n = [digit_char (n div 10), digit_char (n mod 10)]"

definition hms :: "time_of_day \<Rightarrow> string" where
  "hms t = (case t of (h, m, s) \<Rightarrow> pad2 h @ '':'' @ pad2 m @ '':'' @ pad2 s)"

definition secs :: "time_of_day \<Rightarrow> nat" where
  "secs t = (case t of (h, m, s) \<Rightarrow> h * 3600 + m * 60 + s)"

section \<open>The store\<close>

text \<open>The tables of \<open>dbSchema.sql\<close>, with the columns the services read. Field names
  carry the table alias the queries use (\<open>s\<close>, \<open>c\<close>, \<open>sc\<close>).\<close>

record student =
  s_student_id :: int
  s_name :: string
  s_college_id :: int

record course =
  c_course_id :: int
  c_course_code :: string
  c_course_name :: string
  c_college_id :: int

record enrollment =
  sc_student_id :: int
  sc_course_id :: int

record db =
  students :: "student list"
  courses :: "course list"
  timetables :: "timetable list"
  student_courses :: "enrollment list"

text \<open>Errors the store raises. \<open>ER_SIGNAL_EXCEPTION\<close> carries the \<open>MESSAGE_TEXT\<close> of a
  trigger's \<open>SIGNAL\<close>; \<open>ER_OTHER\<close> stands for any error that is not a constraint of the
  schema (a lost connection, a lock timeout).\<close>

datatype db_error =
    ER_SIGNAL_EXCEPTION string
  | ER_DUP_ENTRY
  | ER_NO_REFERENCED_ROW
  | ER_CHECK_CONSTRAINT_VIOLATED
  | ER_TRUNCATED
  | ER_OTHER

text \<open>The calls a service makes on the pool and on a connection, in the order issued.\<close>

datatype db_op =
  GetConnection | BeginTransaction | Select | Insert | Update | Delete | Rollback | Commit | Release

text \<open>
  A connection: \<open>store\<close> is the contents as this connection sees them, \<open>saved\<close> the
  contents at \<open>beginTransaction\<close> (what \<open>rollback\<close> restores), \<open>issued\<close> the calls made
  so far. \<open>fault = Some k\<close> makes the call at position \<open>k\<close> of \<open>issued\<close> throw \<open>ER_OTHER\<close>
  without effect; \<open>getConnection\<close>, \<open>rollback\<close> and \<open>release\<close> are taken not to throw
  (the services do not handle it if they do).
\<close>

record conn =
  store :: db
  saved :: db
  issued :: "db_op list"
  fault :: "nat option"

type_synonym 'a io = "conn \<Rightarrow> (db_error + 'a) \<times> conn"

definition return :: "'a \<Rightarrow> 'a io" where
  "return x c = (Inr x, c)"

text \<open>\<open>await m\<close> followed by the rest of the \<open>try\<close> block; a rejected promise skips the
  rest.\<close>

definition await :: "'a io \<Rightarrow> ('a \<Rightarrow> 'b io) \<Rightarrow> 'b io" where
  "await m k c = (case m c of (Inl e, c') \<Rightarrow> (Inl e, c') | (Inr x, c') \<Rightarrow> k x c')"

definition statement :: "db_op \<Rightarrow> (db \<Rightarrow> (db_error + 'a) \<times> db) \<Rightarrow> 'a io" where
  "statement op f c =
     (let c' = c\<lparr>issued := issued c @ [op]\<rparr> in
      if fault c = Some (length (issued c)) then (Inl ER_OTHER, c')
      else case f (store c) of (r, d) \<Rightarrow> (r, c'\<lparr>store := d\<rparr>))"

definition query :: "(db \<Rightarrow> 'a) \<Rightarrow> 'a io" where
  "query q = statement Select (\<lambda>d. (Inr (q d), d))"

definition beginTransaction :: "unit io" where
  "beginTransaction c =
     (let c' = c\<lparr>issued := issued c @ [BeginTransaction]\<rparr> in
      if fault c = Some (length (issued c)) then (Inl ER_OTHER, c')
      else (Inr (), c'\<lparr>saved := store c\<rparr>))"

definition commit :: "unit io" where
  "commit c =
     (let c' = c\<lparr>issued := issued c @ [Commit]\<rparr> in
      if fault c = Some (length (issued c)) then (Inl ER_OTHER, c')
      else (Inr (), c'\<lparr>saved := store c\<rparr>))"

definition rollback :: "unit io" where
  "rollback c = (Inr (), c\<lparr>issued := issued c @ [Rollback], store := saved c\<rparr>)"

definition getConnection :: "nat option \<Rightarrow> db \<Rightarrow> conn" where
  "getConnection f d = \<lparr>store = d, saved = d, issued = [GetConnection], fault = f\<rparr>"

text \<open>\<open>connection.release()\<close> in \<open>finally\<close>: what the service leaves behind is the
  contents of the store and the calls it made.\<close>

definition release :: "conn \<Rightarrow> db \<times> db_op list" where
  "release c = (store c, issued c @ [Release])"

subsection \<open>Constraints of \<open>student_courses\<close>\<close>

definition college_of_student :: "db \<Rightarrow> int \<Rightarrow> int option" where
  "college_of_student d sid =
     (case [s \<leftarrow> students d. s_student_id s = sid] of [] \<Rightarrow> None | s # _ \<Rightarrow> Some (s_college_id s))"

definition college_of_course :: "db \<Rightarrow> int \<Rightarrow> int option" where
  "college_of_course d cid =
     (case [c \<leftarrow> courses d. c_course_id c = cid] of [] \<Rightarrow> None | c # _ \<Rightarrow> Some (c_college_id c))"

text \<open>Trigger \<open>check_student_course_college_before_insert\<close>: a \<open>SELECT ... INTO\<close> that finds
  no row leaves \<open>NULL\<close>, and \<open>NULL != x\<close> is not true.\<close>

definition college_mismatch :: "db \<Rightarrow> int \<Rightarrow> int \<Rightarrow> bool" where
  "college_mismatch d sid cid =
     (case (college_of_student d sid, college_of_course d cid) of
        (Some a, Some b) \<Rightarrow> a \<noteq> b
      | _ \<Rightarrow> False)"

text \<open>Trigger \<open>check_timetable_clash_before_insert\<close>: the \<open>COUNT(*)\<close> of the join.\<close>

definition clash_count :: "db \<Rightarrow> int \<Rightarrow> int \<Rightarrow> nat" where
  "clash_count d sid cid =
     length [(t1, t2). sc \<leftarrow> student_courses d, t1 \<leftarrow> timetables d, t2 \<leftarrow> timetables d,
               sc_course_id sc = course_id t1, cid = course_id t2,
               sc_student_id sc = sid,
               day_of_week t1 = day_of_week t2,
               start_time t1 < end_time t2 \<and> end_time t1 > start_time t2]"

text \<open>\<open>INSERT INTO student_courses (student_id, course_id) VALUES (?, ?)\<close>: the two
  \<open>BEFORE INSERT\<close> triggers in the order created, then the unique key and the foreign
  keys.\<close>

definition insert_student_course :: "int \<Rightarrow> int \<Rightarrow> db \<Rightarrow> (db_error + unit) \<times> db" where
  "insert_student_course sid cid d =
     (if college_mismatch d sid cid then
        (Inl (ER_SIGNAL_EXCEPTION ''Student and course must belong to the same college''), d)
      else if clash_count d sid cid > 0 then
        (Inl (ER_SIGNAL_EXCEPTION ''Timetable clash detected with existing course enrollment''), d)
      else if \<lparr>sc_student_id = sid, sc_course_id = cid\<rparr> \<in> set (student_courses d) then
        (Inl ER_DUP_ENTRY, d)
      else if sid \<notin> set (map s_student_id (students d)) \<or> cid \<notin> set (map c_course_id (courses d)) then
        (Inl ER_NO_REFERENCED_ROW, d)
      else
        (Inr (), d\<lparr>student_courses := student_courses d @ [\<lparr>sc_student_id = sid, sc_course_id = cid\<rparr>]\<rparr>))"

section \<open>Results\<close>

text \<open>A row of the \<open>conflicts\<close> query of the admin service:
  \<open>s.student_id, s.name, c.course_code, t.day_of_week, t.start_time, t.end_time\<close>.\<close>

type_synonym conflict_row = "int \<times> string \<times> string \<times> weekday \<times> string \<times> string"

text \<open>
  The failures the services return, each carrying what its message interpolates or, for
  the two conflict failures of the admin service, the rows returned beside the message:
  \<^item> \<open>InvalidStudentId\<close>: \<^verbatim>\<open>Invalid student ID provided\<close>
  \<^item> \<open>CourseIdsNotArray\<close>: \<^verbatim>\<open>Course IDs must be provided as an array\<close>
  \<^item> \<open>EmptyCourseList\<close>: \<^verbatim>\<open>Course list cannot be empty\<close>
  \<^item> \<open>StudentNotFound\<close>: \<^verbatim>\<open>Student not found\<close>
  \<^item> \<open>CoursesNotFound ids\<close>: \<^verbatim>\<open>Courses not found: \<close> and the identifiers
  \<^item> \<open>WrongCollege codes\<close>: \<^verbatim>\<open>Courses ... do not belong to student's college\<close>
  \<^item> \<open>Clash c\<close>: the result of \<open>checkTimetableClashes\<close>, passed on (\<open>clash_message c\<close>)
  \<^item> \<open>AlreadyEnrolled codes\<close>: \<^verbatim>\<open>Student is already enrolled in: \<close> and the codes
  \<^item> \<open>ConstraintViolation m\<close>: the message of a trigger
  \<^item> \<open>EnrollmentError\<close>: \<^verbatim>\<open>An error occurred while processing enrollment\<close>
  \<^item> \<open>EnrollmentNotFound\<close>: \<^verbatim>\<open>Enrollment not found\<close>
  \<^item> \<open>DropFailed\<close>: \<^verbatim>\<open>Failed to drop course\<close>
  \<^item> \<open>InvalidDayOfWeek\<close>: \<^verbatim>\<open>Invalid day of week\<close>
  \<^item> \<open>StartNotBeforeEnd\<close>: \<^verbatim>\<open>Start time must be before end time\<close>
  \<^item> \<open>CourseNotFound\<close>: \<^verbatim>\<open>Course not found\<close>
  \<^item> \<open>AddConflicts rows\<close>: \<^verbatim>\<open>Cannot add timetable: Would create conflicts for ...\<close>
  \<^item> \<open>AddTimetableFailed\<close>: \<^verbatim>\<open>Failed to add timetable\<close>
  \<^item> \<open>TimetableNotFound\<close>: \<^verbatim>\<open>Timetable not found\<close>
  \<^item> \<open>UpdateConflicts rows\<close>: \<^verbatim>\<open>Cannot update timetable: Would create conflicts for ...\<close>
  \<^item> \<open>UpdateTimetableFailed\<close>: \<^verbatim>\<open>Failed to update timetable\<close>
  \<^item> \<open>DeleteTimetableFailed\<close>: \<^verbatim>\<open>Failed to delete timetable\<close>
\<close>

datatype failure =
    InvalidStudentId
  | CourseIdsNotArray
  | EmptyCourseList
  | StudentNotFound
  | CoursesNotFound "int list"
  | WrongCollege "string list"
  | Clash clash
  | AlreadyEnrolled "string list"
  | ConstraintViolation string
  | EnrollmentError
  | EnrollmentNotFound
  | DropFailed
  | InvalidDayOfWeek
  | StartNotBeforeEnd
  | CourseNotFound
  | AddConflicts "conflict_row list"
  | AddTimetableFailed
  | TimetableNotFound
  | UpdateConflicts "conflict_row list"
  | UpdateTimetableFailed
  | DeleteTimetableFailed

datatype 'a result = Success 'a | Failure failure


section \<open>Enrollment service\<close>

text \<open>The arguments of \<open>saveStudentCourses\<close> arrive from a JSON body, so they may be of
  any type. A number is an integer or \<open>NaN\<close> here (a student identifier is an \<open>INT\<close>);
  the elements of an array are the course identifiers, numbers as documented.\<close>

datatype jsval =
  JUndefined | JNull | JBool bool | JNum int | JNaN | JStr string | JArr "int list" | JObj

fun truthy :: "jsval \<Rightarrow> bool" where
  "truthy JUndefined = False"
| "truthy JNull = False"
| "truthy (JBool b) = b"
| "truthy (JNum n) = (n \<noteq> 0)"
| "truthy JNaN = False"
| "truthy (JStr s) = (s \<noteq> [])"
| "truthy (JArr xs) = True"
| "truthy JObj = True"

fun typeof :: "jsval \<Rightarrow> string" where
  "typeof JUndefined = ''undefined''"
| "typeof JNull = ''object''"
| "typeof (JBool b) = ''boolean''"
| "typeof (JNum n) = ''number''"
| "typeof JNaN = ''number''"
| "typeof (JStr s) = ''string''"
| "typeof (JArr xs) = ''object''"
| "typeof JObj = ''object''"

fun isArray :: "jsval \<Rightarrow> bool" where
  "isArray (JArr xs) = True"
| "isArray v = False"

fun elements :: "jsval \<Rightarrow> int list" where
  "elements (JArr xs) = xs"
| "elements v = []"

fun number_of :: "jsval \<Rightarrow> int" where
  "number_of (JNum n) = n"
| "number_of v = 0"

text \<open>\<open>[...new Set(courseIds)]\<close>: the first occurrence of each element, in the order of
  the array.\<close>

definition uniqueOf :: "'a list \<Rightarrow> 'a list" where
  "uniqueOf xs = rev (remdups (rev xs))"

text \<open>The row \<open>t.*, c.course_code\<close> of a timetable joined with its course.\<close>

definition join_slot :: "timetable \<Rightarrow> course \<Rightarrow> slot" where
  "join_slot t c =
     \<lparr>timetable_id = timetable_id t, course_id = course_id t, day_of_week = day_of_week t,
      start_time = start_time t, end_time = end_time t, course_code = c_course_code c\<rparr>"

text \<open>An \<open>ENUM\<close> column sorts by the index of its value.\<close>

definition day_index :: "weekday \<Rightarrow> nat" where
  "day_index d = (case d of Monday \<Rightarrow> 1 | Tuesday \<Rightarrow> 2 | Wednesday \<Rightarrow> 3 | Thursday \<Rightarrow> 4
     | Friday \<Rightarrow> 5 | Saturday \<Rightarrow> 6 | Sunday \<Rightarrow> 7)"

text \<open>The five \<open>SELECT\<close>s of \<open>saveStudentCourses\<close>. A join is read in the order of its
  \<open>FROM\<close> clause; rows that \<open>ORDER BY\<close> leaves tied keep that order.\<close>

definition select_student :: "int \<Rightarrow> db \<Rightarrow> student list" where
  "select_student studentId d = [s \<leftarrow> students d. s_student_id s = studentId]"

definition select_courses :: "int list \<Rightarrow> db \<Rightarrow> course list" where
  "select_courses ids d = [c \<leftarrow> courses d. c_course_id c \<in> set ids]"

definition select_timetables :: "int list \<Rightarrow> db \<Rightarrow> slot list" where
  "select_timetables ids d =
     sort_key (\<lambda>s. (day_index (day_of_week s), start_time s))
       [join_slot t c. t \<leftarrow> timetables d, c \<leftarrow> courses d,
          course_id t = c_course_id c, course_id t \<in> set ids]"

definition select_existing :: "int \<Rightarrow> db \<Rightarrow> slot list" where
  "select_existing studentId d =
     [join_slot t c. sc \<leftarrow> student_courses d, t \<leftarrow> timetables d, c \<leftarrow> courses d,
        sc_course_id sc = course_id t, course_id t = c_course_id c,
        sc_student_id sc = studentId]"

definition select_already :: "int \<Rightarrow> int list \<Rightarrow> db \<Rightarrow> string list" where
  "select_already studentId ids d =
     [c_course_code c. sc \<leftarrow> student_courses d, c \<leftarrow> courses d,
        sc_course_id sc = c_course_id c,
        sc_student_id sc = studentId \<and> sc_course_id sc \<in> set ids]"

text \<open>\<open>Promise.all(uniqueCourseIds.map(courseId => connection.query('INSERT ...')))\<close>:
  every insert is queued on the connection before the first one is answered, so all of
  them run, in order, whether or not an earlier one is rejected; the promise rejects with
  the first rejection.\<close>

fun insert_each :: "int \<Rightarrow> int list \<Rightarrow> conn \<Rightarrow> db_error option \<times> conn" where
  "insert_each studentId [] c = (None, c)"
| "insert_each studentId (courseId # rest) c =
     (case statement Insert (insert_student_course studentId courseId) c of
        (Inl e, c') \<Rightarrow> (case insert_each studentId rest c' of (_, c'') \<Rightarrow> (Some e, c''))
      | (Inr _, c') \<Rightarrow> insert_each studentId rest c')"

definition promise_all_inserts :: "int \<Rightarrow> int list \<Rightarrow> unit io" where
  "promise_all_inserts studentId ids c =
     (case insert_each studentId ids c of
        (Some e, c') \<Rightarrow> (Inl e, c')
      | (None, c') \<Rightarrow> (Inr (), c'))"

text \<open>The payload of a successful enrollment: the number in the message, \<open>studentId\<close>,
  and \<open>courseId, courseCode, courseName\<close> of every course.\<close>

type_synonym enrolled = "nat \<times> int \<times> (int \<times> string \<times> string) list"

text \<open>The \<open>try\<close> block of \<open>saveStudentCourses\<close>.\<close>

definition enroll_try :: "int \<Rightarrow> int list \<Rightarrow> enrolled result io" where
  "enroll_try studentId uniqueCourseIds =
     await beginTransaction (\<lambda>_.
     await (query (select_student studentId)) (\<lambda>studentRows.
     if length studentRows = 0 then
       await rollback (\<lambda>_. return (Failure StudentNotFound))
     else
     let studentCollegeId = s_college_id (hd studentRows) in
     await (query (select_courses uniqueCourseIds)) (\<lambda>courseRows.
     if length courseRows \<noteq> length uniqueCourseIds then
       await rollback (\<lambda>_.
         let foundIds = map c_course_id courseRows;
             missingIds = [i \<leftarrow> uniqueCourseIds. i \<notin> set foundIds]
         in return (Failure (CoursesNotFound missingIds)))
     else
     let invalidCourses = [c \<leftarrow> courseRows. c_college_id c \<noteq> studentCollegeId] in
     if length invalidCourses > 0 then
       await rollback (\<lambda>_. return (Failure (WrongCollege (map c_course_code invalidCourses))))
     else
     await (query (select_timetables uniqueCourseIds)) (\<lambda>timetableRows.
     case checkTimetableClashes timetableRows of
       Inl clashResult \<Rightarrow> await rollback (\<lambda>_. return (Failure (Clash clashResult)))
     | Inr _ \<Rightarrow>
     await (query (select_existing studentId)) (\<lambda>existingEnrollments.
     case (if length existingEnrollments > 0
           then checkTimetableClashes (existingEnrollments @ timetableRows) else Inr ()) of
       Inl existingClashResult \<Rightarrow>
         await rollback (\<lambda>_. return (Failure (Clash existingClashResult)))
     | Inr _ \<Rightarrow>
     await (query (select_already studentId uniqueCourseIds)) (\<lambda>alreadyEnrolled.
     if length alreadyEnrolled > 0 then
       await rollback (\<lambda>_. return (Failure (AlreadyEnrolled alreadyEnrolled)))
     else
     await (promise_all_inserts studentId uniqueCourseIds) (\<lambda>_.
     await commit (\<lambda>_.
     return (Success (length uniqueCourseIds, studentId,
       map (\<lambda>c. (c_course_id c, c_course_code c, c_course_name c)) courseRows))))))))))"

text \<open>The \<open>catch\<close> block: roll back, then report a trigger's message or the generic
  failure.\<close>

definition enroll_catch :: "db_error \<Rightarrow> enrolled result io" where
  "enroll_catch e =
     await rollback (\<lambda>_.
     return (case e of
        ER_SIGNAL_EXCEPTION sqlMessage \<Rightarrow>
          Failure (ConstraintViolation
            (if sqlMessage = [] then ''Database constraint violation'' else sqlMessage))
      | _ \<Rightarrow> Failure EnrollmentError))"

definition try_catch :: "'a io \<Rightarrow> (db_error \<Rightarrow> 'a io) \<Rightarrow> 'a io" where
  "try_catch body handler c =
     (case body c of (Inl e, c') \<Rightarrow> handler e c' | (Inr x, c') \<Rightarrow> (Inr x, c'))"

text \<open>A service call returns its result object, and leaves the store and the calls it
  issued. The handlers above never reject, so the last case stands for nothing the
  services do.\<close>

definition finally_release :: "failure \<Rightarrow> 'a result io \<Rightarrow> conn \<Rightarrow> 'a result \<times> db \<times> db_op list" where
  "finally_release unhandled body c =
     (case body c of
        (Inr r, c') \<Rightarrow> (r, release c')
      | (Inl e, c') \<Rightarrow> (Failure unhandled, release c'))"

definition saveStudentCourses ::
  "nat option \<Rightarrow> db \<Rightarrow> jsval \<Rightarrow> jsval \<Rightarrow> enrolled result \<times> db \<times> db_op list" where
  "saveStudentCourses flt d studentId courseIds =
     (if \<not> truthy studentId \<or> typeof studentId \<noteq> ''number'' then
        (Failure InvalidStudentId, d, [])
      else if \<not> isArray courseIds then
        (Failure CourseIdsNotArray, d, [])
      else if length (elements courseIds) = 0 then
        (Failure EmptyCourseList, d, [])
      else
        let uniqueCourseIds = uniqueOf (elements courseIds) in
        finally_release EnrollmentError
          (try_catch (enroll_try (number_of studentId) uniqueCourseIds) enroll_catch)
          (getConnection flt d))"





section \<open>Admin service\<close>

definition validDays :: "string list" where
  "validDays = [''Monday'', ''Tuesday'', ''Wednesday'', ''Thursday'', ''Friday'', ''Saturday'',
     ''Sunday'']"

text \<open>The store converts the name it is given to the value of the \<open>ENUM\<close>.\<close>

definition weekday_of :: "string \<Rightarrow> weekday option" where
  "weekday_of n =
     map_of (zip validDays [Monday, Tuesday, Wednesday, Thursday, Friday, Saturday, Sunday]) n"

definition select_course :: "int \<Rightarrow> db \<Rightarrow> (int \<times> string) list" where
  "select_course courseId d =
     [(c_course_id c, c_course_code c). c \<leftarrow> courses d, c_course_id c = courseId]"

definition select_enrolled_students :: "int \<Rightarrow> db \<Rightarrow> (int \<times> string) list" where
  "select_enrolled_students courseId d =
     remdups [(sc_student_id sc, s_name s). sc \<leftarrow> student_courses d, s \<leftarrow> students d,
                sc_student_id sc = s_student_id s, sc_course_id sc = courseId]"

text \<open>The \<open>conflicts\<close> query of \<open>addTimetable\<close>: slots of the \<^emph>\<open>other\<close> courses
  (\<open>sc2.course_id != ?\<close>) of the students enrolled in the course, on the given day and
  overlapping the given interval.\<close>

definition select_add_conflicts :: "int \<Rightarrow> string \<Rightarrow> string \<Rightarrow> string \<Rightarrow> db \<Rightarrow> conflict_row list" where
  "select_add_conflicts courseId dayOfWeek startTime endTime d =
     remdups
       [(s_student_id s, s_name s, c_course_code c, day_of_week t, start_time t, end_time t).
          sc1 \<leftarrow> student_courses d, s \<leftarrow> students d, sc2 \<leftarrow> student_courses d,
          t \<leftarrow> timetables d, c \<leftarrow> courses d,
          sc_student_id sc1 = s_student_id s, s_student_id s = sc_student_id sc2,
          sc_course_id sc2 = course_id t, course_id t = c_course_id c,
          sc_course_id sc1 = courseId \<and> day_name (day_of_week t) = dayOfWeek
            \<and> start_time t < endTime \<and> end_time t > startTime
            \<and> sc_course_id sc2 \<noteq> courseId]"

text \<open>\<open>AUTO_INCREMENT\<close>: an identifier above every one in the table.\<close>

definition next_timetable_id :: "db \<Rightarrow> int" where
  "next_timetable_id d = fold max (map timetable_id (timetables d)) 0 + 1"

text \<open>\<open>INSERT INTO timetables (course_id, day_of_week, start_time, end_time)\<close>, with the
  table's \<open>CHECK (end_time > start_time)\<close> and its foreign key; returns \<open>insertId\<close>.\<close>

definition insert_timetable :: "int \<Rightarrow> string \<Rightarrow> string \<Rightarrow> string \<Rightarrow> db \<Rightarrow> (db_error + int) \<times> db" where
  "insert_timetable courseId dayOfWeek startTime endTime d =
     (case weekday_of dayOfWeek of
        None \<Rightarrow> (Inl ER_TRUNCATED, d)
      | Some day \<Rightarrow>
          if \<not> endTime > startTime then (Inl ER_CHECK_CONSTRAINT_VIOLATED, d)
          else if courseId \<notin> set (map c_course_id (courses d)) then (Inl ER_NO_REFERENCED_ROW, d)
          else
            (Inr (next_timetable_id d),
             d\<lparr>timetables := timetables d @
                 [\<lparr>timetable_id = next_timetable_id d, course_id = courseId, day_of_week = day,
                   start_time = startTime, end_time = endTime\<rparr>]\<rparr>))"

text \<open>The payload of \<open>addTimetable\<close>: \<open>timetableId, courseId, dayOfWeek, startTime,
  endTime\<close>.\<close>

type_synonym added = "int \<times> int \<times> string \<times> string \<times> string"

definition add_try :: "int \<Rightarrow> string \<Rightarrow> string \<Rightarrow> string \<Rightarrow> added result io" where
  "add_try courseId dayOfWeek startTime endTime =
     await beginTransaction (\<lambda>_.
     await (query (select_course courseId)) (\<lambda>courseRows.
     if length courseRows = 0 then
       await rollback (\<lambda>_. return (Failure CourseNotFound))
     else
     await (query (select_enrolled_students courseId)) (\<lambda>enrolledStudents.
     let insert_commit =
       await (statement Insert (insert_timetable courseId dayOfWeek startTime endTime)) (\<lambda>insertId.
       await commit (\<lambda>_.
       return (Success (insertId, courseId, dayOfWeek, startTime, endTime))))
     in
     if length enrolledStudents > 0 then
       await (query (select_add_conflicts courseId dayOfWeek startTime endTime)) (\<lambda>conflicts.
       if length conflicts > 0 then
         await rollback (\<lambda>_. return (Failure (AddConflicts conflicts)))
       else insert_commit)
     else insert_commit)))"

definition addTimetable ::
  "nat option \<Rightarrow> db \<Rightarrow> int \<Rightarrow> string \<Rightarrow> string \<Rightarrow> string \<Rightarrow> added result \<times> db \<times> db_op list" where
  "addTimetable flt d courseId dayOfWeek startTime endTime =
     (if dayOfWeek \<notin> set validDays then (Failure InvalidDayOfWeek, d, [])
      else if startTime \<ge> endTime then (Failure StartNotBeforeEnd, d, [])
      else
        finally_release AddTimetableFailed
          (try_catch (add_try courseId dayOfWeek startTime endTime)
             (\<lambda>e. await rollback (\<lambda>_. return (Failure AddTimetableFailed))))
          (getConnection flt d))"

text \<open>The \<open>updates\<close> object: a field is absent or a string; \<open>x || y\<close> takes \<open>y\<close> when \<open>x\<close>
  is absent or empty.\<close>

record updates =
  dayOfWeek :: "string option"
  startTime :: "string option"
  endTime :: "string option"

definition given :: "string option \<Rightarrow> bool" where
  "given x = (case x of None \<Rightarrow> False | Some s \<Rightarrow> s \<noteq> [])"

definition or_else :: "string option \<Rightarrow> string \<Rightarrow> string" where
  "or_else x y = (case x of None \<Rightarrow> y | Some s \<Rightarrow> if s = [] then y else s)"

definition select_timetable :: "int \<Rightarrow> db \<Rightarrow> timetable list" where
  "select_timetable timetableId d = [t \<leftarrow> timetables d. timetable_id t = timetableId]"

text \<open>The \<open>conflicts\<close> query of \<open>updateTimetable\<close>: every slot but the one updated
  (\<open>t.timetable_id != ?\<close>) of the students enrolled in its course.\<close>

definition select_update_conflicts :: "int \<Rightarrow> string \<Rightarrow> string \<Rightarrow> string \<Rightarrow> int \<Rightarrow> db \<Rightarrow> conflict_row list" where
  "select_update_conflicts courseId newDayOfWeek newEndTime newStartTime timetableId d =
     remdups
       [(s_student_id s, s_name s, c_course_code c, day_of_week t, start_time t, end_time t).
          sc1 \<leftarrow> student_courses d, s \<leftarrow> students d, sc2 \<leftarrow> student_courses d,
          t \<leftarrow> timetables d, c \<leftarrow> courses d,
          sc_student_id sc1 = s_student_id s, s_student_id s = sc_student_id sc2,
          sc_course_id sc2 = course_id t, course_id t = c_course_id c,
          sc_course_id sc1 = courseId \<and> day_name (day_of_week t) = newDayOfWeek
            \<and> start_time t < newEndTime \<and> end_time t > newStartTime
            \<and> timetable_id t \<noteq> timetableId]"

text \<open>\<open>UPDATE timetables SET day_of_week = ?, start_time = ?, end_time = ? WHERE
  timetable_id = ?\<close>.\<close>

definition update_timetable :: "string \<Rightarrow> string \<Rightarrow> string \<Rightarrow> int \<Rightarrow> db \<Rightarrow> (db_error + unit) \<times> db" where
  "update_timetable newDayOfWeek newStartTime newEndTime timetableId d =
     (case weekday_of newDayOfWeek of
        None \<Rightarrow> (Inl ER_TRUNCATED, d)
      | Some day \<Rightarrow>
          if \<not> newEndTime > newStartTime then (Inl ER_CHECK_CONSTRAINT_VIOLATED, d)
          else
            (Inr (),
             d\<lparr>timetables :=
                 map (\<lambda>t. if timetable_id t = timetableId
                          then t\<lparr>day_of_week := day, start_time := newStartTime,
                                 end_time := newEndTime\<rparr>
                          else t)
                   (timetables d)\<rparr>))"

text \<open>The payload of \<open>updateTimetable\<close>: \<open>timetableId, dayOfWeek, startTime, endTime\<close>.\<close>

type_synonym updated = "int \<times> string \<times> string \<times> string"

definition update_try :: "int \<Rightarrow> updates \<Rightarrow> updated result io" where
  "update_try timetableId u =
     await beginTransaction (\<lambda>_.
     await (query (select_timetable timetableId)) (\<lambda>timetableRows.
     if length timetableRows = 0 then
       await rollback (\<lambda>_. return (Failure TimetableNotFound))
     else
     let existingTimetable = hd timetableRows;
         newDayOfWeek = or_else (dayOfWeek u) (day_name (day_of_week existingTimetable));
         newStartTime = or_else (startTime u) (start_time existingTimetable);
         newEndTime = or_else (endTime u) (end_time existingTimetable)
     in
     if newStartTime \<ge> newEndTime then
       await rollback (\<lambda>_. return (Failure StartNotBeforeEnd))
     else
     await (query (select_update_conflicts (course_id existingTimetable) newDayOfWeek
                     newEndTime newStartTime timetableId)) (\<lambda>conflicts.
     if length conflicts > 0 then
       await rollback (\<lambda>_. return (Failure (UpdateConflicts conflicts)))
     else
     await (statement Update (update_timetable newDayOfWeek newStartTime newEndTime timetableId)) (\<lambda>_.
     await commit (\<lambda>_.
     return (Success (timetableId, newDayOfWeek, newStartTime, newEndTime)))))))"

definition updateTimetable ::
  "nat option \<Rightarrow> db \<Rightarrow> int \<Rightarrow> updates \<Rightarrow> updated result \<times> db \<times> db_op list" where
  "updateTimetable flt d timetableId u =
     (if given (dayOfWeek u) \<and> or_else (dayOfWeek u) [] \<notin> set validDays then
        (Failure InvalidDayOfWeek, d, [])
      else
        finally_release UpdateTimetableFailed
          (try_catch (update_try timetableId u)
             (\<lambda>e. await rollback (\<lambda>_. return (Failure UpdateTimetableFailed))))
          (getConnection flt d))"



section \<open>The public operations as transitions of the store\<close>



section \<open>Invariants of the store\<close>

text \<open>What the schema guarantees of any contents: primary keys are unique and foreign
  keys resolve.\<close>

definition wf_db :: "db \<Rightarrow> bool" where
  "wf_db d \<longleftrightarrow>
     distinct (map s_student_id (students d)) \<and>
     distinct (map c_course_id (courses d)) \<and>
     distinct (map timetable_id (timetables d)) \<and>
     (\<forall>t\<in>set (timetables d). course_id t \<in> set (map c_course_id (courses d))) \<and>
     (\<forall>sc\<in>set (student_courses d).
        sc_student_id sc \<in> set (map s_student_id (students d)) \<and>
        sc_course_id sc \<in> set (map c_course_id (courses d)))"


section \<open>The checks of an enrollment, as specified\<close>






section \<open>The sample data of the schema\<close>

definition sample_db :: db where
  "sample_db =
     \<lparr>students =
        [\<lparr>s_student_id = 1, s_name = ''John Doe'', s_college_id = 1\<rparr>,
         \<lparr>s_student_id = 2, s_name = ''Jane Smith'', s_college_id = 1\<rparr>,
         \<lparr>s_student_id = 3, s_name = ''Bob Johnson'', s_college_id = 2\<rparr>,
         \<lparr>s_student_id = 4, s_name = ''Alice Williams'', s_college_id = 1\<rparr>],
      courses =
        [\<lparr>c_course_id = 1, c_course_code = ''CS101'',
          c_course_name = ''Introduction to Computer Science'', c_college_id = 1\<rparr>,
         \<lparr>c_course_id = 2, c_course_code = ''MA204'', c_course_name = ''Linear Algebra'',
          c_college_id = 1\<rparr>,
         \<lparr>c_course_id = 3, c_course_code = ''AP105'', c_course_name = ''Physics I'',
          c_college_id = 1\<rparr>,
         \<lparr>c_course_id = 4, c_course_code = ''CS201'', c_course_name = ''Data Structures'',
          c_college_id = 1\<rparr>,
         \<lparr>c_course_id = 5, c_course_code = ''CS102'',
          c_course_name = ''Programming Fundamentals'', c_college_id = 2\<rparr>],
      timetables =
        [\<lparr>timetable_id = 1, course_id = 1, day_of_week = Monday,
          start_time = ''09:00:00'', end_time = ''10:00:00''\<rparr>,
         \<lparr>timetable_id = 2, course_id = 1, day_of_week = Tuesday,
          start_time = ''10:00:00'', end_time = ''11:00:00''\<rparr>,
         \<lparr>timetable_id = 3, course_id = 2, day_of_week = Monday,
          start_time = ''10:00:00'', end_time = ''11:00:00''\<rparr>,
         \<lparr>timetable_id = 4, course_id = 2, day_of_week = Wednesday,
          start_time = ''09:00:00'', end_time = ''10:00:00''\<rparr>,
         \<lparr>timetable_id = 5, course_id = 3, day_of_week = Tuesday,
          start_time = ''10:00:00'', end_time = ''11:00:00''\<rparr>,
         \<lparr>timetable_id = 6, course_id = 3, day_of_week = Thursday,
          start_time = ''15:00:00'', end_time = ''18:00:00''\<rparr>,
         \<lparr>timetable_id = 7, course_id = 4, day_of_week = Wednesday,
          start_time = ''10:00:00'', end_time = ''12:00:00''\<rparr>,
         \<lparr>timetable_id = 8, course_id = 4, day_of_week = Friday,
          start_time = ''14:00:00'', end_time = ''16:00:00''\<rparr>,
         \<lparr>timetable_id = 9, course_id = 5, day_of_week = Monday,
          start_time = ''09:00:00'', end_time = ''11:00:00''\<rparr>],
      student_courses = []\<rparr>"


text \<open>Four rows of the sample timetables joined with their courses.\<close>

definition cs101_mon :: slot where
  "cs101_mon = \<lparr>timetable_id = 1, course_id = 1, day_of_week = Monday,
     start_time = ''09:00:00'', end_time = ''10:00:00'', course_code = ''CS101''\<rparr>"

definition cs101_tue :: slot where
  "cs101_tue = \<lparr>timetable_id = 2, course_id = 1, day_of_week = Tuesday,
     start_time = ''10:00:00'', end_time = ''11:00:00'', course_code = ''CS101''\<rparr>"

definition ma204_mon :: slot where
  "ma204_mon = \<lparr>timetable_id = 3, course_id = 2, day_of_week = Monday,
     start_time = ''10:00:00'', end_time = ''11:00:00'', course_code = ''MA204''\<rparr>"

definition ap105_tue :: slot where
  "ap105_tue = \<lparr>timetable_id = 5, course_id = 3, day_of_week = Tuesday,
     start_time = ''10:00:00'', end_time = ''11:00:00'', course_code = ''AP105''\<rparr>"


text \<open>The sample data after John Doe (student 1) has enrolled in CS101 (course 1).\<close>

definition john_in_cs101 :: db where
  "john_in_cs101 = sample_db\<lparr>student_courses := [\<lparr>sc_student_id = 1, sc_course_id = 1\<rparr>]\<rparr>"





section \<open>Auxiliary notions for the proofs\<close>

text \<open>The enrollment rows of one student in the given courses.\<close>

definition enrol_rows :: "int \<Rightarrow> int list \<Rightarrow> enrollment list" where
  "enrol_rows studentId ids = map (\<lambda>courseId. \<lparr>sc_student_id = studentId, sc_course_id = courseId\<rparr>) ids"

section \<open>The conflict checker is correct\<close>

lemma overlap_sym: "timeSlotsOverlap s1 e1 s2 e2 = timeSlotsOverlap s2 e2 s1 e1"
  by (auto simp: timeSlotsOverlap_def)

lemma slots_clash_sym: "slots_clash a b = slots_clash b a"
  by (auto simp: slots_clash_def timeSlotsOverlap_def)

lemma scan_bucket_None:
  "scan_bucket s b = None \<longleftrightarrow>
     (\<forall>e\<in>set b. \<not> timeSlotsOverlap (start_time s) (end_time s) (start_time e) (end_time e))"
  by (induction b) auto

lemma scan_bucket_filter_None:
  "scan_bucket s (filter (\<lambda>x. day_of_week x = day_of_week s) pre) = None \<longleftrightarrow>
     (\<forall>e\<in>set pre. \<not> slots_clash s e)"
  by (auto simp: scan_bucket_None slots_clash_def)

lemma scan_bucket_filter_Some:
  "scan_bucket s (filter (\<lambda>x. day_of_week x = day_of_week s) pre) = Some e \<Longrightarrow>
     \<exists>earlier later. pre = earlier @ e # later \<and> slots_clash s e \<and>
        (\<forall>x\<in>set earlier. \<not> slots_clash s x)"
proof (induction pre)
  case Nil
  then show ?case by simp
next
  case (Cons x pre)
  show ?case
  proof (cases "slots_clash s x")
    case True
    with Cons.prems have "e = x" by (simp add: slots_clash_def)
    with True have "x # pre = [] @ e # pre \<and> slots_clash s e \<and> (\<forall>y\<in>set []. \<not> slots_clash s y)"
      by simp
    then show ?thesis by blast
  next
    case False
    with Cons.prems
    have "scan_bucket s (filter (\<lambda>x. day_of_week x = day_of_week s) pre) = Some e"
      by (auto simp: slots_clash_def split: if_splits)
    from Cons.IH [OF this] obtain earlier later where
      "pre = earlier @ e # later" "slots_clash s e" "\<forall>y\<in>set earlier. \<not> slots_clash s y"
      by blast
    with False have "x # pre = (x # earlier) @ e # later \<and> slots_clash s e \<and>
        (\<forall>y\<in>set (x # earlier). \<not> slots_clash s y)"
      by simp
    then show ?thesis by blast
  qed
qed


lemma buckets_of_empty: "buckets_of Map.empty []"
  by (simp add: buckets_of_def bucket_def)

lemma buckets_of_push: "buckets_of m pre \<Longrightarrow> buckets_of (push_slot s m) (pre @ [s])"
  by (auto simp: buckets_of_def bucket_def push_slot_def)

lemma buckets_of_fold: "buckets_of m pre \<Longrightarrow> buckets_of (fold push_slot ts m) (pre @ ts)"
proof (induction ts arbitrary: m pre)
  case Nil
  then show ?case by simp
next
  case (Cons s ts)
  from Cons.IH [OF buckets_of_push [OF Cons.prems], of s] show ?case by simp
qed

lemma clash_loop_append:
  "clash_loop m pre = Inr () \<Longrightarrow> clash_loop m (pre @ ts) = clash_loop (fold push_slot pre m) ts"
  by (induction pre arbitrary: m) (auto split: option.splits)

lemma clash_loop_ok:
  "buckets_of m pre \<Longrightarrow>
   clash_loop m ts = Inr () \<longleftrightarrow>
     (\<forall>y\<in>set ts. \<forall>x\<in>set pre. \<not> slots_clash y x) \<and> sorted_wrt (\<lambda>a b. \<not> slots_clash b a) ts"
proof (induction ts arbitrary: m pre)
  case Nil
  then show ?case by simp
next
  case (Cons s ts)
  have b: "bucket m (day_of_week s) = filter (\<lambda>x. day_of_week x = day_of_week s) pre"
    using Cons.prems by (simp add: buckets_of_def)
  show ?case
  proof (cases "scan_bucket s (bucket m (day_of_week s))")
    case None
    then have n: "\<forall>e\<in>set pre. \<not> slots_clash s e"
      by (simp add: b scan_bucket_filter_None)
    have "clash_loop m (s # ts) = clash_loop (push_slot s m) ts"
      using None by simp
    also have "\<dots> = Inr () \<longleftrightarrow>
       (\<forall>y\<in>set ts. \<forall>x\<in>set (pre @ [s]). \<not> slots_clash y x) \<and>
       sorted_wrt (\<lambda>a b. \<not> slots_clash b a) ts"
      by (rule Cons.IH [OF buckets_of_push [OF Cons.prems]])
    finally show ?thesis using n by auto
  next
    case (Some e)
    then have "\<not> (\<forall>e\<in>set pre. \<not> slots_clash s e)"
      using scan_bucket_filter_None [of s pre] by (simp add: b)
    with Some show ?thesis by auto
  qed
qed

lemma check_ok_iff:
  "checkTimetableClashes ts = Inr () \<longleftrightarrow> sorted_wrt (\<lambda>a b. \<not> slots_clash b a) ts"
  unfolding checkTimetableClashes_def
  using clash_loop_ok [OF buckets_of_empty, of ts] by simp

lemma clash_loop_first:
  "buckets_of m pre \<Longrightarrow> clash_loop m ts = Inl c \<Longrightarrow>
   \<exists>mid s post earlier e later.
      ts = mid @ s # post \<and> pre @ mid = earlier @ e # later \<and>
      clash_loop m mid = Inr () \<and>
      slots_clash s e \<and> (\<forall>x\<in>set earlier. \<not> slots_clash s x) \<and> c = clash_of s e"
proof (induction ts arbitrary: m pre)
  case Nil
  then show ?case by simp
next
  case (Cons s ts)
  have b: "bucket m (day_of_week s) = filter (\<lambda>x. day_of_week x = day_of_week s) pre"
    using Cons.prems(1) by (simp add: buckets_of_def)
  show ?case
  proof (cases "scan_bucket s (bucket m (day_of_week s))")
    case None
    then have "clash_loop (push_slot s m) ts = Inl c"
      using Cons.prems(2) by simp
    from Cons.IH [OF buckets_of_push [OF Cons.prems(1)] this]
    obtain mid s' post earlier e later where
      h: "ts = mid @ s' # post" "(pre @ [s]) @ mid = earlier @ e # later"
         "clash_loop (push_slot s m) mid = Inr ()"
         "slots_clash s' e" "\<forall>x\<in>set earlier. \<not> slots_clash s' x" "c = clash_of s' e"
      by blast
    have "s # ts = (s # mid) @ s' # post \<and> pre @ (s # mid) = earlier @ e # later \<and>
      clash_loop m (s # mid) = Inr () \<and>
      slots_clash s' e \<and> (\<forall>x\<in>set earlier. \<not> slots_clash s' x) \<and> c = clash_of s' e"
      using h None by simp
    then show ?thesis by blast
  next
    case (Some e)
    then have c: "c = clash_of s e" using Cons.prems(2) by simp
    from Some have "scan_bucket s (filter (\<lambda>x. day_of_week x = day_of_week s) pre) = Some e"
      by (simp add: b)
    from scan_bucket_filter_Some [OF this] obtain earlier later where
      "pre = earlier @ e # later" "slots_clash s e" "\<forall>x\<in>set earlier. \<not> slots_clash s x"
      by blast
    with c have "s # ts = [] @ s # ts \<and> pre @ [] = earlier @ e # later \<and>
      clash_loop m [] = Inr () \<and>
      slots_clash s e \<and> (\<forall>x\<in>set earlier. \<not> slots_clash s x) \<and> c = clash_of s e"
      by simp
    then show ?thesis by blast
  qed
qed


lemma sorted_wrt_no_clash_nth:
  "sorted_wrt (\<lambda>a b. \<not> slots_clash b a) ts \<longleftrightarrow>
     \<not> (\<exists>i j. i < j \<and> j < length ts \<and> slots_clash (ts ! i) (ts ! j))"
  by (auto simp: sorted_wrt_iff_nth_less slots_clash_sym [of "ts ! _" "ts ! _"])

lemma no_clash_distinct_days:
  "distinct (map day_of_week ts) \<Longrightarrow> sorted_wrt (\<lambda>a b. \<not> slots_clash b a) ts"
proof (induction ts)
  case Nil
  then show ?case by simp
next
  case (Cons a ts)
  from Cons.prems have "day_of_week a \<notin> day_of_week ` set ts" by simp
  then have "\<forall>x\<in>set ts. day_of_week x \<noteq> day_of_week a" by (metis imageI)
  with Cons show ?case by (simp add: slots_clash_def)
qed


text \<open>
  Claim C1. \<open>checkTimetableClashes\<close> reports success exactly when no two slots of the
  sequence lie on the same weekday with overlapping intervals. In particular: a sequence
  whose slots all lie on different weekdays succeeds; two back-to-back slots of one
  weekday succeed, in either order; two slots of one weekday with the same well-formed
  interval fail.
\<close>

theorem checkTimetableClashes_success_iff_no_clashing_pair:
  fixes ts :: "slot list" and a b :: slot
  shows
  "(checkTimetableClashes ts = Inr () \<longleftrightarrow>
      \<not> (\<exists>i j. i < j \<and> j < length ts \<and> slots_clash (ts ! i) (ts ! j)))
   \<and> (distinct (map day_of_week ts) \<longrightarrow> checkTimetableClashes ts = Inr ())
   \<and> (day_of_week a = day_of_week b \<and> end_time a = start_time b \<longrightarrow>
        checkTimetableClashes [a, b] = Inr () \<and> checkTimetableClashes [b, a] = Inr ())
   \<and> (day_of_week a = day_of_week b \<and> start_time a = start_time b \<and> end_time a = end_time b
        \<and> start_time a < end_time a \<longrightarrow>
        checkTimetableClashes [a, b] = Inl (clash_of b a))"
proof (intro conjI impI)
  show "checkTimetableClashes ts = Inr () \<longleftrightarrow>
      \<not> (\<exists>i j. i < j \<and> j < length ts \<and> slots_clash (ts ! i) (ts ! j))"
    by (simp only: check_ok_iff sorted_wrt_no_clash_nth)
next
  assume "distinct (map day_of_week ts)"
  then show "checkTimetableClashes ts = Inr ()"
    by (simp only: check_ok_iff no_clash_distinct_days)
next
  assume "day_of_week a = day_of_week b \<and> end_time a = start_time b"
  then show "checkTimetableClashes [a, b] = Inr ()"
    by (simp add: check_ok_iff slots_clash_def timeSlotsOverlap_def)
next
  assume "day_of_week a = day_of_week b \<and> end_time a = start_time b"
  then show "checkTimetableClashes [b, a] = Inr ()"
    by (simp add: check_ok_iff slots_clash_def timeSlotsOverlap_def)
next
  assume "day_of_week a = day_of_week b \<and> start_time a = start_time b \<and> end_time a = end_time b
        \<and> start_time a < end_time a"
  then show "checkTimetableClashes [a, b] = Inl (clash_of b a)"
    by (auto simp: checkTimetableClashes_def bucket_def push_slot_def timeSlotsOverlap_def)
qed

lemmas sample_slots =
  cs101_mon_def cs101_tue_def ma204_mon_def ap105_tue_def checkTimetableClashes_def bucket_def
  push_slot_def timeSlotsOverlap_def clash_of_def label_def

theorem checkTimetableClashes_success_iff_no_clashing_pair_witness:
  "(checkTimetableClashes [cs101_mon, cs101_tue, ap105_tue] = Inr () \<longleftrightarrow>
      \<not> (\<exists>i j. i < j \<and> j < length [cs101_mon, cs101_tue, ap105_tue] \<and>
            slots_clash ([cs101_mon, cs101_tue, ap105_tue] ! i)
              ([cs101_mon, cs101_tue, ap105_tue] ! j)))
   \<and> checkTimetableClashes [cs101_mon, cs101_tue, ap105_tue] \<noteq> Inr ()
   \<and> distinct (map day_of_week [cs101_mon, cs101_tue])
   \<and> checkTimetableClashes [cs101_mon, cs101_tue] = Inr ()
   \<and> day_of_week cs101_mon = day_of_week ma204_mon \<and> end_time cs101_mon = start_time ma204_mon
   \<and> checkTimetableClashes [cs101_mon, ma204_mon] = Inr ()
   \<and> checkTimetableClashes [ma204_mon, cs101_mon] = Inr ()
   \<and> day_of_week cs101_tue = day_of_week ap105_tue \<and> start_time cs101_tue = start_time ap105_tue
   \<and> end_time cs101_tue = end_time ap105_tue \<and> start_time cs101_tue < end_time cs101_tue
   \<and> checkTimetableClashes [cs101_tue, ap105_tue] = Inl (clash_of ap105_tue cs101_tue)"
  using checkTimetableClashes_success_iff_no_clashing_pair
          [of "[cs101_mon, cs101_tue, ap105_tue]" cs101_tue ap105_tue]
        checkTimetableClashes_success_iff_no_clashing_pair
          [of "[cs101_mon, cs101_tue]" cs101_mon ma204_mon]
  by (simp add: sample_slots)

text \<open>
  Claim C7. When \<open>checkTimetableClashes\<close> reports a clash, the input splits as
  \<open>earlier @ existing # later @ s # post\<close> where the slots before \<open>s\<close> pass the check (so
  \<open>s\<close> is the first slot that clashes with one before it), the buckets built from them
  hold the slots of each weekday in input order, no slot of \<open>earlier\<close> clashes with \<open>s\<close>
  (so \<open>existing\<close> is the first slot that \<open>s\<close> clashes with), and the report names the
  weekday, the two labels and the two intervals of \<open>s\<close> and \<open>existing\<close>.
\<close>

theorem checkTimetableClashes_reports_first_clash:
  "checkTimetableClashes ts = Inl c \<Longrightarrow>
     \<exists>earlier existing later s post.
        ts = earlier @ existing # later @ s # post \<and>
        checkTimetableClashes (earlier @ existing # later) = Inr () \<and>
        (\<forall>d. bucket (fold push_slot (earlier @ existing # later) Map.empty) d =
               [x \<leftarrow> earlier @ existing # later. day_of_week x = d]) \<and>
        (\<forall>x\<in>set earlier. \<not> slots_clash s x) \<and>
        slots_clash s existing \<and>
        c = TimetableClash (day_of_week s) (label s) (start_time s) (end_time s)
              (label existing) (start_time existing) (end_time existing)"
proof -
  assume "checkTimetableClashes ts = Inl c"
  then have "clash_loop Map.empty ts = Inl c"
    by (simp add: checkTimetableClashes_def)
  from clash_loop_first [OF buckets_of_empty this]
  obtain mid s post earlier e later where
    h: "ts = mid @ s # post" "[] @ mid = earlier @ e # later"
       "clash_loop Map.empty mid = Inr ()"
       "slots_clash s e" "\<forall>x\<in>set earlier. \<not> slots_clash s x" "c = clash_of s e"
    by blast
  have b: "\<forall>d. bucket (fold push_slot mid Map.empty) d = [x \<leftarrow> mid. day_of_week x = d]"
    using buckets_of_fold [OF buckets_of_empty, of mid] by (simp add: buckets_of_def)
  have "ts = earlier @ e # later @ s # post \<and>
        checkTimetableClashes (earlier @ e # later) = Inr () \<and>
        (\<forall>d. bucket (fold push_slot (earlier @ e # later) Map.empty) d =
               [x \<leftarrow> earlier @ e # later. day_of_week x = d]) \<and>
        (\<forall>x\<in>set earlier. \<not> slots_clash s x) \<and>
        slots_clash s e \<and>
        c = TimetableClash (day_of_week s) (label s) (start_time s) (end_time s)
              (label e) (start_time e) (end_time e)"
    using h b by (simp add: checkTimetableClashes_def clash_of_def)
  then show ?thesis by blast
qed

theorem checkTimetableClashes_reports_first_clash_witness:
  "checkTimetableClashes [cs101_mon, cs101_tue, ma204_mon, ap105_tue, cs101_mon] =
      Inl (TimetableClash Tuesday ''AP105'' ''10:00:00'' ''11:00:00''
             ''CS101'' ''10:00:00'' ''11:00:00'')
   \<and> (\<exists>earlier existing later s post.
        [cs101_mon, cs101_tue, ma204_mon, ap105_tue, cs101_mon] =
          earlier @ existing # later @ s # post \<and>
        checkTimetableClashes (earlier @ existing # later) = Inr () \<and>
        (\<forall>d. bucket (fold push_slot (earlier @ existing # later) Map.empty) d =
               [x \<leftarrow> earlier @ existing # later. day_of_week x = d]) \<and>
        (\<forall>x\<in>set earlier. \<not> slots_clash s x) \<and>
        slots_clash s existing \<and>
        TimetableClash Tuesday ''AP105'' ''10:00:00'' ''11:00:00''
            ''CS101'' ''10:00:00'' ''11:00:00''
          = TimetableClash (day_of_week s) (label s) (start_time s) (end_time s)
              (label existing) (start_time existing) (end_time existing))"
proof -
  have h: "checkTimetableClashes [cs101_mon, cs101_tue, ma204_mon, ap105_tue, cs101_mon] =
      Inl (TimetableClash Tuesday ''AP105'' ''10:00:00'' ''11:00:00''
             ''CS101'' ''10:00:00'' ''11:00:00'')"
    by (simp add: sample_slots)
  from checkTimetableClashes_reports_first_clash [OF h] h show ?thesis by blast
qed

text \<open>
  Claim C8. The overlap test is symmetric in its two intervals, and an interval whose
  start is before its end overlaps itself.
\<close>

theorem timeSlotsOverlap_symmetric_reflexive:
  "timeSlotsOverlap s1 e1 s2 e2 = timeSlotsOverlap s2 e2 s1 e1 \<and>
   (s1 < e1 \<longrightarrow> timeSlotsOverlap s1 e1 s1 e1)"
  by (auto simp: timeSlotsOverlap_def)

theorem timeSlotsOverlap_symmetric_reflexive_witness:
  "timeSlotsOverlap ''09:00:00'' ''10:00:00'' ''09:30:00'' ''10:30:00''
     = timeSlotsOverlap ''09:30:00'' ''10:30:00'' ''09:00:00'' ''10:00:00'' \<and>
   ''09:00:00'' < ''10:00:00'' \<and>
   timeSlotsOverlap ''09:00:00'' ''10:00:00'' ''09:00:00'' ''10:00:00''"
  using timeSlotsOverlap_symmetric_reflexive
          [of "''09:00:00''" "''10:00:00''" "''09:30:00''" "''10:30:00''"]
        timeSlotsOverlap_symmetric_reflexive
          [of "''09:00:00''" "''10:00:00''" "''09:00:00''" "''10:00:00''"]
  by simp

section \<open>Comparing times of day as strings\<close>

lemma digit_less: "a < 10 \<Longrightarrow> b < 10 \<Longrightarrow> digit_char a < digit_char b \<longleftrightarrow> a < b"
  by (simp add: digit_char_def less_char_def)

lemma digit_eq: "a < 10 \<Longrightarrow> b < 10 \<Longrightarrow> digit_char a = digit_char b \<longleftrightarrow> a = b"
  by (metis digit_less linorder_neqE_nat less_irrefl)

lemma two_digits_less:
  "ra < (10::nat) \<Longrightarrow> rb < 10 \<Longrightarrow> (qa < qb \<or> qa = qb \<and> ra < rb) \<longleftrightarrow> 10 * qa + ra < 10 * qb + rb"
  by auto

lemma two_digits_eq:
  "ra < (10::nat) \<Longrightarrow> rb < 10 \<Longrightarrow> (qa = qb \<and> ra = rb) \<longleftrightarrow> 10 * qa + ra = 10 * qb + rb"
  by (cases qa qb rule: linorder_cases) auto

lemma pad2_less: "a < 100 \<Longrightarrow> b < 100 \<Longrightarrow> pad2 a < pad2 b \<longleftrightarrow> a < b"
proof -
  assume a: "a < 100" and b: "b < 100"
  have d: "a div 10 < 10" "b div 10 < 10" "a mod 10 < 10" "b mod 10 < 10"
    using a b by simp_all
  have "pad2 a < pad2 b \<longleftrightarrow>
     (a div 10 < b div 10 \<or> a div 10 = b div 10 \<and> a mod 10 < b mod 10)"
    unfolding pad2_def using d by (simp add: digit_less digit_eq)
  also have "\<dots> \<longleftrightarrow> 10 * (a div 10) + a mod 10 < 10 * (b div 10) + b mod 10"
    using d by (rule_tac two_digits_less) 
  finally show ?thesis by simp
qed

lemma pad2_eq: "a < 100 \<Longrightarrow> b < 100 \<Longrightarrow> pad2 a = pad2 b \<longleftrightarrow> a = b"
proof -
  assume a: "a < 100" and b: "b < 100"
  have d: "a div 10 < 10" "b div 10 < 10" "a mod 10 < 10" "b mod 10 < 10"
    using a b by simp_all
  have "pad2 a = pad2 b \<longleftrightarrow> (a div 10 = b div 10 \<and> a mod 10 = b mod 10)"
    unfolding pad2_def using d by (simp add: digit_eq)
  also have "\<dots> \<longleftrightarrow> 10 * (a div 10) + a mod 10 = 10 * (b div 10) + b mod 10"
    using d by (rule_tac two_digits_eq)
  finally show ?thesis by simp
qed

lemma append_less_same_length:
  "length (xs::string) = length ys \<Longrightarrow> xs @ us < ys @ vs \<longleftrightarrow> xs < ys \<or> xs = ys \<and> us < vs"
  by (induction xs ys rule: list_induct2) auto

lemma secs_lex:
  "m1 < 60 \<Longrightarrow> m2 < 60 \<Longrightarrow> s1 < 60 \<Longrightarrow> s2 < 60 \<Longrightarrow>
   secs (h1, m1, s1) < secs (h2, m2, s2) \<longleftrightarrow>
     h1 < h2 \<or> h1 = h2 \<and> (m1 < m2 \<or> m1 = m2 \<and> s1 < s2)"
  unfolding secs_def by auto

lemma pad2_len: "length (pad2 n) = 2"
  by (simp add: pad2_def)

lemma hms_less:
  assumes "two_digit_fields a" "two_digit_fields b"
  shows "hms a < hms b \<longleftrightarrow> secs a < secs b"
proof -
  obtain h1 m1 s1 where a: "a = (h1, m1, s1)" by (cases a) auto
  obtain h2 m2 s2 where b: "b = (h2, m2, s2)" by (cases b) auto
  have r: "h1 < 100" "h2 < 100" "m1 < 60" "m2 < 60" "s1 < 60" "s2 < 60"
    using assms by (simp_all add: a b two_digit_fields_def)
  have "hms a < hms b \<longleftrightarrow>
        pad2 h1 < pad2 h2 \<or> pad2 h1 = pad2 h2 \<and>
          (pad2 m1 < pad2 m2 \<or> pad2 m1 = pad2 m2 \<and> pad2 s1 < pad2 s2)"
    unfolding hms_def a b by (simp add: append_less_same_length pad2_len)
  also have "\<dots> \<longleftrightarrow> h1 < h2 \<or> h1 = h2 \<and> (m1 < m2 \<or> m1 = m2 \<and> s1 < s2)"
    using r by (simp add: pad2_less pad2_eq)
  also have "\<dots> \<longleftrightarrow> secs a < secs b"
    using r by (simp add: secs_lex a b)
  finally show ?thesis .
qed

lemma hms_ge:
  "two_digit_fields a \<Longrightarrow> two_digit_fields b \<Longrightarrow> hms a \<ge> hms b \<longleftrightarrow> secs a \<ge> secs b"
  using hms_less [of a b] by (simp add: not_less [symmetric])

lemma finally_release_issued: "snd (snd (finally_release u body c)) \<noteq> []"
  by (simp add: finally_release_def release_def split: prod.splits sum.splits)

lemma validDays_Monday: "''Monday'' \<in> set validDays"
  by (simp add: validDays_def)

text \<open>
  Claim C10. The services compare times as strings: \<open>timeSlotsOverlap\<close> with \<open><\<close> and
  \<open>>\<close>, \<open>addTimetable\<close> with \<open>>=\<close>. On zero-padded fixed-width \<open>HH:MM:SS\<close> strings
  these comparisons agree with the comparison of the times they denote, so the overlap
  test and \<open>addTimetable\<close>'s rejection of an interval give the results they would give
  on the numeric times. Without the padding they do not: as strings, \<open>9:00:00\<close>-\<open>11:00:00\<close>
  does not overlap \<open>10:00:00\<close>-\<open>12:00:00\<close>.
\<close>

theorem string_comparison_agrees_on_padded_times:
  assumes "two_digit_fields a" "two_digit_fields b" "two_digit_fields c" "two_digit_fields d"
  shows
  "(hms a < hms b \<longleftrightarrow> secs a < secs b)
   \<and> (hms a \<ge> hms b \<longleftrightarrow> secs a \<ge> secs b)
   \<and> timeSlotsOverlap (hms a) (hms b) (hms c) (hms d)
       = timeSlotsOverlap (secs a) (secs b) (secs c) (secs d)
   \<and> (addTimetable flt db courseId ''Monday'' (hms a) (hms b)
          = (Failure StartNotBeforeEnd, db, []) \<longleftrightarrow> secs a \<ge> secs b)
   \<and> \<not> timeSlotsOverlap ''9:00:00'' ''11:00:00'' ''10:00:00'' ''12:00:00''
   \<and> timeSlotsOverlap (secs (9, 0, 0)) (secs (11, 0, 0)) (secs (10, 0, 0)) (secs (12, 0, 0))"
proof (intro conjI)
  show "hms a < hms b \<longleftrightarrow> secs a < secs b"
    using assms by (simp add: hms_less)
  show "hms a \<ge> hms b \<longleftrightarrow> secs a \<ge> secs b"
    using assms by (simp add: hms_ge)
  show "timeSlotsOverlap (hms a) (hms b) (hms c) (hms d)
       = timeSlotsOverlap (secs a) (secs b) (secs c) (secs d)"
    using assms by (simp add: timeSlotsOverlap_def hms_less)
  show "addTimetable flt db courseId ''Monday'' (hms a) (hms b)
          = (Failure StartNotBeforeEnd, db, []) \<longleftrightarrow> secs a \<ge> secs b"
  proof (cases "hms a \<ge> hms b")
    case True
    then have "addTimetable flt db courseId ''Monday'' (hms a) (hms b)
          = (Failure StartNotBeforeEnd, db, [])"
      by (simp add: addTimetable_def validDays_Monday)
    with True show ?thesis using assms by (simp add: hms_ge)
  next
    case False
    then have "snd (snd (addTimetable flt db courseId ''Monday'' (hms a) (hms b))) \<noteq> []"
      by (simp add: addTimetable_def validDays_Monday finally_release_issued)
    then have "addTimetable flt db courseId ''Monday'' (hms a) (hms b)
          \<noteq> (Failure StartNotBeforeEnd, db, [])"
      by auto
    with False show ?thesis using assms by (simp add: hms_ge)
  qed
  show "\<not> timeSlotsOverlap ''9:00:00'' ''11:00:00'' ''10:00:00'' ''12:00:00''"
    by (simp add: timeSlotsOverlap_def)
  show "timeSlotsOverlap (secs (9, 0, 0)) (secs (11, 0, 0)) (secs (10, 0, 0)) (secs (12, 0, 0))"
    by (simp add: timeSlotsOverlap_def secs_def)
qed

lemma hms_samples:
  "hms (9, 0, 0) = ''09:00:00''" "hms (10, 0, 0) = ''10:00:00''"
  "hms (9, 30, 0) = ''09:30:00''" "hms (10, 30, 0) = ''10:30:00''"
  by code_simp+

theorem string_comparison_agrees_on_padded_times_witness:
  "two_digit_fields (9, 0, 0) \<and> two_digit_fields (10, 0, 0) \<and> two_digit_fields (9, 30, 0)
   \<and> two_digit_fields (10, 30, 0)
   \<and> (''09:00:00'' < ''10:00:00'' \<longleftrightarrow> secs (9, 0, 0) < secs (10, 0, 0))
   \<and> timeSlotsOverlap ''09:00:00'' ''10:00:00'' ''09:30:00'' ''10:30:00''
       = timeSlotsOverlap (secs (9, 0, 0)) (secs (10, 0, 0)) (secs (9, 30, 0)) (secs (10, 30, 0))
   \<and> addTimetable None sample_db 1 ''Monday'' ''10:00:00'' ''09:00:00''
       = (Failure StartNotBeforeEnd, sample_db, [])"
proof -
  have f: "two_digit_fields (9, 0, 0)" "two_digit_fields (10, 0, 0)"
    "two_digit_fields (9, 30, 0)" "two_digit_fields (10, 30, 0)"
    by (simp_all add: two_digit_fields_def)
  from string_comparison_agrees_on_padded_times [OF f(1) f(2) f(3) f(4), of None sample_db 1]
       string_comparison_agrees_on_padded_times [OF f(2) f(1) f(3) f(4), of None sample_db 1]
       f
  show ?thesis by (simp add: hms_samples secs_def)
qed

section \<open>The enrollment transaction\<close>

lemma statement_frame:
  "statement op f c = (r, c') \<Longrightarrow>
     saved c' = saved c \<and> fault c' = fault c \<and> issued c' = issued c @ [op]"
  by (auto simp: statement_def Let_def split: if_splits prod.splits)

lemma insert_student_course_cases:
  "insert_student_course sid cid d = (r, d') \<Longrightarrow>
     (\<exists>e. r = Inl e \<and> d' = d) \<or>
     (r = Inr () \<and> d' = d\<lparr>student_courses := student_courses d @ [\<lparr>sc_student_id = sid, sc_course_id = cid\<rparr>]\<rparr>)"
  by (auto simp: insert_student_course_def split: if_splits)

lemma insert_each_frame:
  "insert_each sid ids c = (r, c') \<Longrightarrow>
     saved c' = saved c \<and> fault c' = fault c \<and>
     issued c' = issued c @ replicate (length ids) Insert \<and>
     (r = None \<longrightarrow> store c' = (store c)\<lparr>student_courses := student_courses (store c) @ enrol_rows sid ids\<rparr>)"
proof (induction ids arbitrary: c r c')
  case Nil
  then show ?case by (simp add: enrol_rows_def)
next
  case (Cons cid ids)
  obtain r1 c1 where s1: "statement Insert (insert_student_course sid cid) c = (r1, c1)"
    by (cases "statement Insert (insert_student_course sid cid) c") auto
  obtain r2 c2 where s2: "insert_each sid ids c1 = (r2, c2)"
    by (cases "insert_each sid ids c1") auto
  have f1: "saved c1 = saved c \<and> fault c1 = fault c \<and> issued c1 = issued c @ [Insert]"
    using statement_frame [OF s1] .
  note ih = Cons.IH [OF s2]
  have c': "c' = c2" and r: "r = (case r1 of Inl e \<Rightarrow> Some e | Inr _ \<Rightarrow> r2)"
    using Cons.prems s1 s2 by (auto split: sum.splits)
  have st: "r1 = Inr () \<Longrightarrow> store c1 = (store c)\<lparr>student_courses := student_courses (store c) @ [\<lparr>sc_student_id = sid, sc_course_id = cid\<rparr>]\<rparr>"
    using s1 by (auto simp: statement_def Let_def split: if_splits prod.splits dest: insert_student_course_cases)
  show ?case
    using f1 ih c' r st by (auto simp: enrol_rows_def replicate_append_same split: sum.splits)
qed

lemmas tx_defs =
  await_def beginTransaction_def query_def statement_def rollback_def return_def commit_def
  Let_def

lemma enroll_try_outcome:
  assumes "saved c = store c"
  shows "case enroll_try sid ids c of
     (Inl e, c') \<Rightarrow> saved c' = store c
   | (Inr (Failure f), c') \<Rightarrow> store c' = store c
   | (Inr (Success p), c') \<Rightarrow>
        store c' = (store c)\<lparr>student_courses := student_courses (store c) @ enrol_rows sid ids\<rparr> \<and>
        checkTimetableClashes (select_timetables ids (store c)) = Inr () \<and>
        (select_existing sid (store c) = [] \<or>
         checkTimetableClashes (select_existing sid (store c) @ select_timetables ids (store c)) = Inr ()) \<and>
        select_already sid ids (store c) = [] \<and>
        select_student sid (store c) \<noteq> [] \<and>
        length (select_courses ids (store c)) = length ids"
  using assms
  by (auto simp: enroll_try_def tx_defs promise_all_inserts_def
     split: prod.splits sum.splits option.splits dest!: insert_each_frame)

lemma enroll_outcome:
  "saveStudentCourses flt d studentId courseIds = (r, d', ops) \<Longrightarrow>
     ((\<exists>f. r = Failure f) \<and> d' = d) \<or>
     ((\<exists>p. r = Success p) \<and>
      d' = d\<lparr>student_courses := student_courses d @
              enrol_rows (number_of studentId) (uniqueOf (elements courseIds))\<rparr> \<and>
      checkTimetableClashes (select_timetables (uniqueOf (elements courseIds)) d) = Inr () \<and>
      (select_existing (number_of studentId) d = [] \<or>
       checkTimetableClashes (select_existing (number_of studentId) d @
          select_timetables (uniqueOf (elements courseIds)) d) = Inr ()) \<and>
      select_already (number_of studentId) (uniqueOf (elements courseIds)) d = [] \<and>
      select_student (number_of studentId) d \<noteq> [] \<and>
      length (select_courses (uniqueOf (elements courseIds)) d) =
        length (uniqueOf (elements courseIds)))"
proof -
  assume a: "saveStudentCourses flt d studentId courseIds = (r, d', ops)"
  let ?c = "getConnection flt d"
  have c: "saved ?c = store ?c" "store ?c = d" by (simp_all add: getConnection_def)
  note o = enroll_try_outcome [OF c(1), where sid = "number_of studentId"
      and ids = "uniqueOf (elements courseIds)"]
  show ?thesis
    using a o unfolding c(2)
    by (auto simp: saveStudentCourses_def finally_release_def try_catch_def enroll_catch_def
          release_def tx_defs
        split: if_splits prod.splits sum.splits result.splits db_error.splits)
qed

lemma uniqueOf_set: "set (uniqueOf xs) = set xs"
  by (simp add: uniqueOf_def)


text \<open>
  Claim C9. When \<open>studentId\<close> is missing or not a number, or \<open>courseIds\<close> is not an array
  or is empty, \<open>saveStudentCourses\<close> returns one of its three input failures, makes no
  call on the store and leaves its contents as they were.
\<close>

theorem saveStudentCourses_rejects_invalid_input:
  "studentId = JUndefined \<or> typeof studentId \<noteq> ''number'' \<or> \<not> isArray courseIds
     \<or> courseIds = JArr [] \<Longrightarrow>
   \<exists>f. saveStudentCourses flt d studentId courseIds = (Failure f, d, []) \<and>
       f \<in> {InvalidStudentId, CourseIdsNotArray, EmptyCourseList}"
  by (auto simp: saveStudentCourses_def)

theorem saveStudentCourses_rejects_invalid_input_witness:
  "(JStr ''1'' = JUndefined \<or> typeof (JStr ''1'') \<noteq> ''number'' \<or> \<not> isArray (JArr [1, 2])
     \<or> JArr [1, 2] = JArr []) \<and>
   (\<exists>f. saveStudentCourses None sample_db (JStr ''1'') (JArr [1, 2]) = (Failure f, sample_db, []) \<and>
       f \<in> {InvalidStudentId, CourseIdsNotArray, EmptyCourseList}) \<and>
   (\<exists>f. saveStudentCourses None sample_db (JNum 1) (JArr []) = (Failure f, sample_db, []) \<and>
       f \<in> {InvalidStudentId, CourseIdsNotArray, EmptyCourseList})"
  using saveStudentCourses_rejects_invalid_input [of "JStr ''1''" "JArr [1, 2]" None sample_db]
        saveStudentCourses_rejects_invalid_input [of "JNum 1" "JArr []" None sample_db]
  by simp





section \<open>Validation of intervals in the admin service\<close>

text \<open>
  Claim C6 as stated fails for \<open>updateTimetable\<close>: the merged interval can only be
  formed from the stored row, so the row is looked up first. Updating the start of the
  Monday 09:00-10:00 slot to 11:00 is rejected after a transaction was opened and one
  \<open>SELECT\<close> issued.
\<close>

theorem updateTimetable_looks_up_before_validating:
  "or_else (Some ''11:00:00'') ''09:00:00'' \<ge> or_else None ''10:00:00'' \<and>
   updateTimetable None sample_db 1
       \<lparr>dayOfWeek = None, startTime = Some ''11:00:00'', endTime = None\<rparr> =
     (Failure StartNotBeforeEnd, sample_db,
      [GetConnection, BeginTransaction, Select, Rollback, Release])"
  by code_simp

text \<open>
  Claim C6, amended. \<open>addTimetable\<close> rejects an interval with \<open>start >= end\<close> before it
  makes any call on the store (as \<open>StartNotBeforeEnd\<close> when the weekday is valid).
  \<open>updateTimetable\<close>, when the weekday given is valid and the slot exists, rejects a
  merged interval with \<open>start >= end\<close> after the lookup of the slot and before the
  conflict query: it opens a transaction, issues that one \<open>SELECT\<close>, rolls back, and
  leaves the store as it was.
\<close>

theorem interval_validated_before_conflict_check:
  "(start \<ge> finish \<longrightarrow>
      (\<exists>f. addTimetable flt d courseId day start finish = (Failure f, d, []) \<and>
           (day \<in> set validDays \<longrightarrow> f = StartNotBeforeEnd)))
   \<and> (\<not> (given (dayOfWeek u) \<and> or_else (dayOfWeek u) [] \<notin> set validDays) \<and>
       select_timetable timetableId d = existing # others \<and>
       or_else (startTime u) (start_time existing) \<ge> or_else (endTime u) (end_time existing)
      \<longrightarrow> updateTimetable None d timetableId u =
            (Failure StartNotBeforeEnd, d,
             [GetConnection, BeginTransaction, Select, Rollback, Release]))"
proof (intro conjI impI)
  assume "start \<ge> finish"
  then show "\<exists>f. addTimetable flt d courseId day start finish = (Failure f, d, []) \<and>
           (day \<in> set validDays \<longrightarrow> f = StartNotBeforeEnd)"
    by (simp add: addTimetable_def)
next
  assume a: "\<not> (given (dayOfWeek u) \<and> or_else (dayOfWeek u) [] \<notin> set validDays) \<and>
       select_timetable timetableId d = existing # others \<and>
       or_else (startTime u) (start_time existing) \<ge> or_else (endTime u) (end_time existing)"
  then have "update_try timetableId u (getConnection None d) =
      (Inr (Failure StartNotBeforeEnd),
       \<lparr>store = d, saved = d, issued = [GetConnection, BeginTransaction, Select, Rollback],
        fault = None\<rparr>)"
    by (simp add: update_try_def tx_defs getConnection_def)
  with a show "updateTimetable None d timetableId u =
            (Failure StartNotBeforeEnd, d,
             [GetConnection, BeginTransaction, Select, Rollback, Release])"
    by (simp add: updateTimetable_def finally_release_def try_catch_def release_def)
qed

theorem interval_validated_before_conflict_check_witness:
  "''10:00:00'' \<ge> ''09:00:00''
   \<and> (\<exists>f. addTimetable None sample_db 1 ''Monday'' ''10:00:00'' ''09:00:00'' =
             (Failure f, sample_db, []) \<and>
           (''Monday'' \<in> set validDays \<longrightarrow> f = StartNotBeforeEnd))
   \<and> ''Monday'' \<in> set validDays
   \<and> select_timetable 1 sample_db = hd (timetables sample_db) # []
   \<and> updateTimetable None sample_db 1
          \<lparr>dayOfWeek = None, startTime = Some ''11:00:00'', endTime = None\<rparr> =
        (Failure StartNotBeforeEnd, sample_db,
         [GetConnection, BeginTransaction, Select, Rollback, Release])"
proof -
  have s: "select_timetable 1 sample_db = hd (timetables sample_db) # []"
    by (simp add: select_timetable_def sample_db_def)
  have h: "''10:00:00'' \<ge> ''09:00:00''" by simp
  have g: "\<not> (given (dayOfWeek \<lparr>dayOfWeek = None, startTime = Some ''11:00:00'', endTime = None\<rparr>) \<and>
      or_else (dayOfWeek \<lparr>dayOfWeek = None, startTime = Some ''11:00:00'', endTime = None\<rparr>) []
         \<notin> set validDays)"
    by (simp add: given_def)
  have m: "or_else (startTime \<lparr>dayOfWeek = None, startTime = Some ''11:00:00'', endTime = None\<rparr>)
             (start_time (hd (timetables sample_db)))
           \<ge> or_else (endTime \<lparr>dayOfWeek = None, startTime = Some ''11:00:00'', endTime = None\<rparr>)
             (end_time (hd (timetables sample_db)))"
    by (simp add: or_else_def sample_db_def)
  from interval_validated_before_conflict_check
         [of "''09:00:00''" "''10:00:00''" None sample_db 1 "''Monday''"
             "\<lparr>dayOfWeek = None, startTime = Some ''11:00:00'', endTime = None\<rparr>"
             1 "hd (timetables sample_db)" "[]"]
       s h g m
  show ?thesis by (simp add: validDays_Monday)
qed

section \<open>The enrollment guards in order\<close>







lemma in_select_already:
  "x \<in> set (select_already sid req d) \<longleftrightarrow>
     (\<exists>sc\<in>set (student_courses d). \<exists>c\<in>set (courses d).
        sc_course_id sc = c_course_id c \<and> sc_student_id sc = sid \<and> sc_course_id sc \<in> set req \<and>
        x = c_course_code c)"
  by (force simp: select_already_def)






















lemma wf_db_enrolled_course:
  "wf_db d \<Longrightarrow> sc \<in> set (student_courses d) \<Longrightarrow>
     \<exists>k\<in>set (courses d). c_course_id k = sc_course_id sc"
proof -
  assume "wf_db d" "sc \<in> set (student_courses d)"
  then have "sc_course_id sc \<in> c_course_id ` set (courses d)" by (simp add: wf_db_def)
  then show ?thesis by force
qed

lemma reenroll_fails:
  assumes wf: "wf_db d"
    and sc: "\<lparr>sc_student_id = sid, sc_course_id = x\<rparr> \<in> set (student_courses d)"
    and x: "x \<in> set ids"
  shows "(\<exists>f. fst (saveStudentCourses flt d (JNum sid) (JArr ids)) = Failure f) \<and>
         fst (snd (saveStudentCourses flt d (JNum sid) (JArr ids))) = d"
proof -
  obtain r d' ops where o: "saveStudentCourses flt d (JNum sid) (JArr ids) = (r, d', ops)"
    by (cases "saveStudentCourses flt d (JNum sid) (JArr ids)") auto
  from wf_db_enrolled_course [OF wf sc] obtain k where
    k: "k \<in> set (courses d)" "c_course_id k = x" by auto
  have "c_course_code k \<in> set (select_already sid (uniqueOf ids) d)"
    unfolding in_select_already using sc k x by (force simp: uniqueOf_set)
  then have "select_already sid (uniqueOf ids) d \<noteq> []" by auto
  with enroll_outcome [OF o] have "(\<exists>f. r = Failure f) \<and> d' = d" by auto
  with o show ?thesis by simp
qed

text \<open>
  Claim C4. A student already enrolled in a course who requests it again gets no
  second row: on a store that satisfies its schema, wherever the store faults, the call
  fails and leaves the store as it was. The failure, however, is not the one claimed. At
  the failing input John Doe is enrolled in CS101, which meets on Monday 09:00-10:00,
  and asks for CS101 again: the check of the requested slots against the slots of his
  enrolled courses comes before the check for an existing enrollment and finds the
  Monday slot of CS101 twice, so the request fails with a timetable clash of CS101 with
  itself, not with \<open>AlreadyEnrolled\<close>.
\<close>

theorem reenroll_fails_with_clash_not_already_enrolled:
  "(wf_db d \<and> \<lparr>sc_student_id = studentId, sc_course_id = x\<rparr> \<in> set (student_courses d) \<and>
    x \<in> set courseIds \<longrightarrow>
      (\<exists>f. fst (saveStudentCourses flt d (JNum studentId) (JArr courseIds)) = Failure f) \<and>
      fst (snd (saveStudentCourses flt d (JNum studentId) (JArr courseIds))) = d)
   \<and> fst (snd (saveStudentCourses None sample_db (JNum 1) (JArr [1]))) = john_in_cs101
   \<and> saveStudentCourses None john_in_cs101 (JNum 1) (JArr [1]) =
       (Failure (Clash (TimetableClash Monday ''CS101'' ''09:00:00'' ''10:00:00''
                          ''CS101'' ''09:00:00'' ''10:00:00'')),
        john_in_cs101,
        [GetConnection, BeginTransaction, Select, Select, Select, Select, Rollback, Release])"
proof (intro conjI impI)
  assume "wf_db d \<and> \<lparr>sc_student_id = studentId, sc_course_id = x\<rparr> \<in> set (student_courses d) \<and>
    x \<in> set courseIds"
  then show "\<exists>f. fst (saveStudentCourses flt d (JNum studentId) (JArr courseIds)) = Failure f"
    and "fst (snd (saveStudentCourses flt d (JNum studentId) (JArr courseIds))) = d"
    using reenroll_fails [of d studentId x courseIds flt] by simp_all
next
  show "fst (snd (saveStudentCourses None sample_db (JNum 1) (JArr [1]))) = john_in_cs101"
    by code_simp
next
  show "saveStudentCourses None john_in_cs101 (JNum 1) (JArr [1]) =
       (Failure (Clash (TimetableClash Monday ''CS101'' ''09:00:00'' ''10:00:00''
                          ''CS101'' ''09:00:00'' ''10:00:00'')),
        john_in_cs101,
        [GetConnection, BeginTransaction, Select, Select, Select, Select, Rollback, Release])"
    by code_simp
qed

lemma john_in_cs101_wf: "wf_db john_in_cs101"
  by (simp add: wf_db_def john_in_cs101_def sample_db_def)

theorem reenroll_fails_with_clash_not_already_enrolled_witness:
  "wf_db john_in_cs101 \<and>
   \<lparr>sc_student_id = 1, sc_course_id = 1\<rparr> \<in> set (student_courses john_in_cs101) \<and>
   (1::int) \<in> set [1] \<and>
   (\<exists>f. fst (saveStudentCourses None john_in_cs101 (JNum 1) (JArr [1])) = Failure f) \<and>
   fst (snd (saveStudentCourses None john_in_cs101 (JNum 1) (JArr [1]))) = john_in_cs101 \<and>
   fst (saveStudentCourses None john_in_cs101 (JNum 1) (JArr [1]))
     \<noteq> Failure (AlreadyEnrolled [''CS101''])"
proof -
  have e: "\<lparr>sc_student_id = 1, sc_course_id = 1\<rparr> \<in> set (student_courses john_in_cs101)"
    by (simp add: john_in_cs101_def)
  from reenroll_fails_with_clash_not_already_enrolled
         [of john_in_cs101 1 1 "[1]" None] john_in_cs101_wf e
  show ?thesis by simp
qed

section \<open>The schedule invariant\<close>










































end
